theory Spec2Isabelle
  imports Main "HOL-Library.Sublist"
begin

section \<open>Values, documents and responses\<close>

text \<open>
  The server in \<^verbatim>\<open>Express.js\<close> is a set of route handlers over two MongoDB
  collections, \<^verbatim>\<open>lessons\<close> and \<^verbatim>\<open>order\<close>.  The file holds the server twice;
  the handlers below follow the first listing, which the second repeats with other
  console messages (there the update and delete handlers pass an error on without
  logging it first).

  JavaScript values that travel through the handlers (parsed request bodies, stored
  documents, response bodies) are modelled by one datatype.  \<open>VId\<close> is an
  \<^verbatim>\<open>ObjectId\<close> and \<open>VDate\<close> a \<^verbatim>\<open>Date\<close> (milliseconds since the epoch);
  neither occurs in a parsed request.  Numbers are opaque payload: no handler computes
  with them.  Strings are read as ASCII text.
\<close>

type_synonym oid = nat

datatype jsval =
    VUndefined
  | VNull
  | VBool bool
  | VNum int
  | VStr string
  | VArr "jsval list"
  | VObj "(string \<times> jsval) list"
  | VId oid
  | VDate int

type_synonym doc = "(string \<times> jsval) list"

text \<open>A thrown or rejected \<^verbatim>\<open>Error\<close>: its \<^verbatim>\<open>message\<close> and its \<^verbatim>\<open>stack\<close>.\<close>

datatype js_error = JsError (err_message: string) (err_stack: string)

text \<open>\<^verbatim>\<open>res.status(c).json(v)\<close>; \<^verbatim>\<open>res.json(v)\<close> alone answers with status 200.\<close>

record response =
  status :: nat
  json :: jsval

definition error_body :: "string \<Rightarrow> jsval" where
  "error_body msg = VObj [(''error'', VStr msg)]"

definition message_body :: "string \<Rightarrow> jsval" where
  "message_body msg = VObj [(''message'', VStr msg)]"

section \<open>The store\<close>

text \<open>
  The calls a handler issues to the MongoDB driver, and what it writes to the console.
\<close>

datatype call =
    Find_text string
  | Find_regex string
  | Find_all
  | Insert_one doc
  | Update_one oid jsval
  | Delete_one oid

datatype console_entry =
    Console_log string jsval
  | Console_error string js_error
  | Console_error_obj js_error
  | Console_error_stack string

text \<open>
  The state a request runs against: the two collections, the outcome the environment has
  scheduled for the coming driver calls (\<open>Some e\<close>: the call is rejected with \<open>e\<close>,
  as on a lost connection; an exhausted schedule means no failure), the driver calls
  issued so far, the console, and how many identifiers the driver has generated.
\<close>

record world =
  lessons :: "doc list"
  orders :: "doc list"
  faults :: "js_error option list"
  calls :: "call list"
  console :: "console_entry list"
  generated :: nat

text \<open>
  What the program takes from its libraries and only uses: \<^verbatim>\<open>ObjectId.isValid\<close>; the
  \<^verbatim>\<open>ObjectId\<close> constructor on a path parameter (the handlers call it only on a string
  that \<^verbatim>\<open>isValid\<close> accepts, where it returns an identifier); the identifier generator,
  by the number of identifiers generated before; the matching of the store's text index
  over \<^verbatim>\<open>subject\<close> and \<^verbatim>\<open>location\<close>; the regular expression engine and the
  \<^verbatim>\<open>$set\<close> operator outside the fragments modelled below (\<open>Inl\<close>: the store
  rejects the pattern or the update document); and the \<^verbatim>\<open>TypeError\<close> the runtime
  raises on a property access or a call that is not possible (its argument is the
  offending value).
\<close>

record env =
  isValid :: "jsval \<Rightarrow> bool"
  objectId :: "string \<Rightarrow> oid"
  generateId :: "nat \<Rightarrow> oid"
  textMatch :: "string \<Rightarrow> doc \<Rightarrow> bool"
  pcre :: "string \<Rightarrow> js_error + (string \<Rightarrow> bool)"
  setOperator :: "jsval \<Rightarrow> js_error + (doc \<Rightarrow> js_error + doc)"
  typeError :: "jsval \<Rightarrow> js_error"

definition driver_call :: "call \<Rightarrow> world \<Rightarrow> js_error option \<times> world" where
  "driver_call c w =
     (case faults w of
        [] \<Rightarrow> (None, w\<lparr>calls := calls w @ [c]\<rparr>)
      | f # fs \<Rightarrow> (f, w\<lparr>faults := fs, calls := calls w @ [c]\<rparr>))"

subsection \<open>Regular expressions: the fragment of literals and dots\<close>

text \<open>
  \<^verbatim>\<open>{ $regex: q, $options: "i" }\<close> hands the query to the store as a pattern.  A pattern
  made of ASCII characters that are not metacharacters, and of dots, is matched here:
  a dot stands for any character but a line feed, any other character for itself
  without regard to case, and the pattern may match anywhere in the text.  Every other
  pattern is left to \<open>pcre\<close>.
\<close>

definition toLower :: "char \<Rightarrow> char" where
  "toLower c =
     (case map_of (zip ''ABCDEFGHIJKLMNOPQRSTUVWXYZ'' ''abcdefghijklmnopqrstuvwxyz'') c of
        Some l \<Rightarrow> l
      | None \<Rightarrow> c)"

definition literal_char :: "char \<Rightarrow> bool" where
  "literal_char c \<longleftrightarrow>
     c \<notin> set ''^$.[]|()?*+{}'' \<and> c \<noteq> CHR 0x5C \<and> c \<noteq> CHR 0x00 \<and> (of_char c :: nat) < 128"

definition char_matches :: "char \<Rightarrow> char \<Rightarrow> bool" where
  "char_matches p c = (if p = CHR ''.'' then c \<noteq> CHR 0x0A else toLower p = toLower c)"

fun match_here :: "string \<Rightarrow> string \<Rightarrow> bool" where
  "match_here [] s = True"
| "match_here (p # ps) [] = False"
| "match_here (p # ps) (c # cs) = (char_matches p c \<and> match_here ps cs)"

fun match_anywhere :: "string \<Rightarrow> string \<Rightarrow> bool" where
  "match_anywhere p [] = match_here p []"
| "match_anywhere p (c # cs) = (match_here p (c # cs) \<or> match_anywhere p cs)"

definition regexCompile :: "env \<Rightarrow> string \<Rightarrow> js_error + (string \<Rightarrow> bool)" where
  "regexCompile e p =
     (if list_all (\<lambda>c. literal_char c \<or> c = CHR ''.'') p then Inr (match_anywhere p)
      else pcre e p)"

text \<open>
  A query operator on a field looks into an array value: the field matches when it is
  a string that matches or an array with a string element that matches.
\<close>

definition string_matches :: "(string \<Rightarrow> bool) \<Rightarrow> jsval \<Rightarrow> bool" where
  "string_matches m v = (case v of VStr s \<Rightarrow> m s | _ \<Rightarrow> False)"

definition field_matches :: "(string \<Rightarrow> bool) \<Rightarrow> jsval option \<Rightarrow> bool" where
  "field_matches m f =
     (case f of
        Some (VStr s) \<Rightarrow> m s
      | Some (VArr xs) \<Rightarrow> list_ex (string_matches m) xs
      | _ \<Rightarrow> False)"

subsection \<open>Driver operations\<close>

text \<open>
  Each operation is one call to the driver: it is recorded, it fails when the schedule
  says so, and otherwise it does to the collection what MongoDB documents for the call.
\<close>

text \<open>\<^verbatim>\<open>lessons.find({ $text: { $search: q } }).toArray()\<close>\<close>

definition findText :: "env \<Rightarrow> string \<Rightarrow> world \<Rightarrow> (js_error + doc list) \<times> world" where
  "findText e q w =
     (case driver_call (Find_text q) w of
        (Some err, w') \<Rightarrow> (Inl err, w')
      | (None, w') \<Rightarrow> (Inr (filter (textMatch e q) (lessons w')), w'))"

text \<open>\<^verbatim>\<open>lessons.find({ $or: [{ subject: { $regex: q, $options: "i" } },
  { location: { $regex: q, $options: "i" } }] }).toArray()\<close>\<close>

definition findRegex :: "env \<Rightarrow> string \<Rightarrow> world \<Rightarrow> (js_error + doc list) \<times> world" where
  "findRegex e q w =
     (case driver_call (Find_regex q) w of
        (Some err, w') \<Rightarrow> (Inl err, w')
      | (None, w') \<Rightarrow>
          (case regexCompile e q of
             Inl err \<Rightarrow> (Inl err, w')
           | Inr m \<Rightarrow>
               (Inr (filter (\<lambda>d. field_matches m (map_of d ''subject'')
                                \<or> field_matches m (map_of d ''location''))
                       (lessons w')), w')))"

text \<open>\<^verbatim>\<open>lessons.find({}).toArray()\<close>\<close>

definition findAll :: "world \<Rightarrow> (js_error + doc list) \<times> world" where
  "findAll w =
     (case driver_call Find_all w of
        (Some err, w') \<Rightarrow> (Inl err, w')
      | (None, w') \<Rightarrow> (Inr (lessons w'), w'))"

text \<open>
  The driver writes a document as BSON, and with its default options it writes
  \<^verbatim>\<open>undefined\<close> as null, at any depth.  A value without \<^verbatim>\<open>undefined\<close> inside,
  as \<^verbatim>\<open>JSON.parse\<close> gives it, is written as it is.
\<close>

fun serialize :: "jsval \<Rightarrow> jsval" where
  "serialize VUndefined = VNull"
| "serialize (VArr xs) = VArr (map serialize xs)"
| "serialize (VObj kvs) = VObj (map (\<lambda>kv. (fst kv, serialize (snd kv))) kvs)"
| "serialize v = v"

fun defined :: "jsval \<Rightarrow> bool" where
  "defined VUndefined = False"
| "defined (VArr xs) = list_all defined xs"
| "defined (VObj kvs) = list_all (\<lambda>kv. defined (snd kv)) kvs"
| "defined v = True"

text \<open>
  \<^verbatim>\<open>db.collection("order").insertOne(d)\<close>: the driver generates the identifier, the
  collection keeps the document handed over as the driver writes it, with \<^verbatim>\<open>_id\<close> in
  front, and the result carries the identifier as \<^verbatim>\<open>insertedId\<close>.
\<close>

definition insertOne :: "env \<Rightarrow> doc \<Rightarrow> world \<Rightarrow> (js_error + oid) \<times> world" where
  "insertOne e d w =
     (case driver_call (Insert_one d) w of
        (Some err, w') \<Rightarrow> (Inl err, w')
      | (None, w') \<Rightarrow>
          (let i = generateId e (generated w')
           in (Inr i,
               w'\<lparr>orders :=
                    orders w' @ [(''_id'', VId i) # map (\<lambda>kv. (fst kv, serialize (snd kv))) d],
                  generated := Suc (generated w')\<rparr>)))"

definition has_id :: "oid \<Rightarrow> doc \<Rightarrow> bool" where
  "has_id i d \<longleftrightarrow> map_of d ''_id'' = Some (VId i)"

subsection \<open>The \<open>$set\<close> operator on fields and dotted paths\<close>

text \<open>
  \<^verbatim>\<open>{ $set: body }\<close> is modelled where \<^verbatim>\<open>body\<close> is an object whose keys are
  field names or dotted paths of field names.  A field name is not empty, has no dot and
  no leading dollar sign; a path does not start at \<^verbatim>\<open>_id\<close>; no key of the body is
  the beginning of another; the values hold only field names as keys.  A key without a dot
  overwrites the field where the document has it and adds it at the end where it has not.
  A key with dots addresses a field inside embedded documents: the operator walks through
  the embedded documents the path names, creates those that are missing, and sets the last
  field there.  Where a path meets a value that is not an embedded document (an array, a
  number, null), and for every other update document, the result is left to
  \<open>setOperator\<close>.
\<close>

definition field_name :: "string \<Rightarrow> bool" where
  "field_name k \<longleftrightarrow>
     k \<noteq> [] \<and> hd k \<noteq> CHR ''$'' \<and> CHR ''.'' \<notin> set k \<and> CHR 0x00 \<notin> set k"

fun plain_value :: "jsval \<Rightarrow> bool" where
  "plain_value (VObj kvs) = list_all (\<lambda>kv. field_name (fst kv) \<and> plain_value (snd kv)) kvs"
| "plain_value (VArr xs) = list_all plain_value xs"
| "plain_value VUndefined = False"
| "plain_value v = True"

text \<open>\<^verbatim>\<open>"venue.room"\<close> is the path \<open>[''venue'', ''room'']\<close>.\<close>

fun splitPath :: "string \<Rightarrow> string list" where
  "splitPath [] = [[]]"
| "splitPath (c # cs) =
     (if c = CHR ''.'' then [] # splitPath cs
      else (case splitPath cs of s # ss \<Rightarrow> (c # s) # ss | [] \<Rightarrow> [[c]]))"

definition field_path :: "string \<Rightarrow> bool" where
  "field_path k \<longleftrightarrow> list_all field_name (splitPath k) \<and> hd (splitPath k) \<noteq> ''_id''"

fun conflict_free :: "string list list \<Rightarrow> bool" where
  "conflict_free [] = True"
| "conflict_free (p # ps) =
     (list_all (\<lambda>q. \<not> prefix p q \<and> \<not> prefix q p) ps \<and> conflict_free ps)"

definition path_update :: "(string \<times> jsval) list \<Rightarrow> bool" where
  "path_update kvs \<longleftrightarrow>
     kvs \<noteq> []
     \<and> list_all (\<lambda>kv. field_path (fst kv) \<and> plain_value (snd kv)) kvs
     \<and> conflict_free (map (\<lambda>kv. splitPath (fst kv)) kvs)"

fun setField :: "string \<Rightarrow> jsval \<Rightarrow> doc \<Rightarrow> doc" where
  "setField k v [] = [(k, v)]"
| "setField k v (f # d) = (if fst f = k then (k, v) # d else f # setField k v d)"

text \<open>The embedded document a path walks into: an empty one where the field is missing,
  none where the field holds another kind of value.\<close>

definition embedded :: "jsval option \<Rightarrow> doc option" where
  "embedded f = (case f of None \<Rightarrow> Some [] | Some (VObj sub) \<Rightarrow> Some sub | Some _ \<Rightarrow> None)"

fun setPath :: "string list \<Rightarrow> jsval \<Rightarrow> doc \<Rightarrow> doc option" where
  "setPath [] v d = None"
| "setPath [k] v d = Some (setField k v d)"
| "setPath (k # ks) v d =
     (case embedded (map_of d k) of
        None \<Rightarrow> None
      | Some sub \<Rightarrow>
          (case setPath ks v sub of
             None \<Rightarrow> None
           | Some sub' \<Rightarrow> Some (setField k (VObj sub') d)))"

fun setPaths :: "(string \<times> jsval) list \<Rightarrow> doc \<Rightarrow> doc option" where
  "setPaths [] d = Some d"
| "setPaths (kv # kvs) d =
     (case setPath (splitPath (fst kv)) (snd kv) d of
        None \<Rightarrow> None
      | Some d' \<Rightarrow> setPaths kvs d')"

definition setCompile :: "env \<Rightarrow> jsval \<Rightarrow> js_error + (doc \<Rightarrow> js_error + doc)" where
  "setCompile e upd =
     (case upd of
        VObj kvs \<Rightarrow>
          if path_update kvs then
            Inr (\<lambda>d. case setPaths kvs d of
                        Some d' \<Rightarrow> Inr d'
                      | None \<Rightarrow> (case setOperator e upd of Inl err \<Rightarrow> Inl err | Inr f \<Rightarrow> f d))
          else setOperator e upd
      | _ \<Rightarrow> setOperator e upd)"

text \<open>
  \<^verbatim>\<open>updateOne\<close> changes the first document the filter selects and reports how many
  documents it modified: none when no document is selected, and none when the selected
  document already holds the values.
\<close>

fun update_first ::
  "(doc \<Rightarrow> bool) \<Rightarrow> (doc \<Rightarrow> js_error + doc) \<Rightarrow> doc list \<Rightarrow> js_error + (nat \<times> doc list)" where
  "update_first P f [] = Inr (0, [])"
| "update_first P f (d # ds) =
     (if P d then
        (case f d of
           Inl err \<Rightarrow> Inl err
         | Inr d' \<Rightarrow> Inr (if d' = d then 0 else 1, d' # ds))
      else
        (case update_first P f ds of
           Inl err \<Rightarrow> Inl err
         | Inr (n, ds') \<Rightarrow> Inr (n, d # ds')))"

text \<open>\<^verbatim>\<open>lessons.updateOne({ _id: i }, { $set: upd })\<close>; the result is
  \<^verbatim>\<open>modifiedCount\<close>.\<close>

definition updateOne :: "env \<Rightarrow> oid \<Rightarrow> jsval \<Rightarrow> world \<Rightarrow> (js_error + nat) \<times> world" where
  "updateOne e i upd w =
     (case driver_call (Update_one i upd) w of
        (Some err, w') \<Rightarrow> (Inl err, w')
      | (None, w') \<Rightarrow>
          (case setCompile e upd of
             Inl err \<Rightarrow> (Inl err, w')
           | Inr f \<Rightarrow>
               (case update_first (has_id i) f (lessons w') of
                  Inl err \<Rightarrow> (Inl err, w')
                | Inr (n, ds) \<Rightarrow> (Inr n, w'\<lparr>lessons := ds\<rparr>))))"

fun delete_first :: "(doc \<Rightarrow> bool) \<Rightarrow> doc list \<Rightarrow> nat \<times> doc list" where
  "delete_first P [] = (0, [])"
| "delete_first P (d # ds) =
     (if P d then (1, ds)
      else (case delete_first P ds of (n, ds') \<Rightarrow> (n, d # ds')))"

text \<open>\<^verbatim>\<open>lessons.deleteOne({ _id: i })\<close>; the result is \<^verbatim>\<open>deletedCount\<close>.\<close>

definition deleteOne :: "oid \<Rightarrow> world \<Rightarrow> (js_error + nat) \<times> world" where
  "deleteOne i w =
     (case driver_call (Delete_one i) w of
        (Some err, w') \<Rightarrow> (Inl err, w')
      | (None, w') \<Rightarrow>
          (case delete_first (has_id i) (lessons w') of
             (n, ds) \<Rightarrow> (Inr n, w'\<lparr>lessons := ds\<rparr>)))"

section \<open>Route handlers\<close>

text \<open>
  A handler ends in a response (\<open>Inr\<close>) or hands an error to \<^verbatim>\<open>next\<close> (\<open>Inl\<close>):
  by calling \<^verbatim>\<open>next(error)\<close>, or by throwing while it runs, which the router catches
  and passes on in the same way.
\<close>

type_synonym outcome = "(js_error + response) \<times> world"

definition say :: "console_entry \<Rightarrow> world \<Rightarrow> world" where
  "say x w = w\<lparr>console := console w @ [x]\<rparr>"

text \<open>\<^verbatim>\<open>app.get("/search", ...)\<close>; the argument is \<^verbatim>\<open>req.query.q\<close>, \<open>None\<close> when
  the parameter is absent.\<close>

definition search :: "env \<Rightarrow> string option \<Rightarrow> world \<Rightarrow> outcome" where
  "search e searchQuery w =
     (case searchQuery of
        None \<Rightarrow> (Inr \<lparr>status = 406, json = error_body ''Search query is required.''\<rparr>, w)
      | Some q \<Rightarrow>
          if q = [] then
            (Inr \<lparr>status = 406, json = error_body ''Search query is required.''\<rparr>, w)
          else
            (case findText e q w of
               (Inl err, w1) \<Rightarrow>
                 (Inr \<lparr>status = 500, json = error_body ''An error occurred during the search.''\<rparr>,
                  say (Console_error_obj err) w1)
             | (Inr results, w1) \<Rightarrow>
                 if length results = 0 then
                   (case findRegex e q w1 of
                      (Inl err, w2) \<Rightarrow>
                        (Inr \<lparr>status = 500,
                              json = error_body ''An error occurred during the search.''\<rparr>,
                         say (Console_error_obj err) w2)
                    | (Inr regexResults, w2) \<Rightarrow>
                        if length regexResults = 0 then
                          (Inr \<lparr>status = 404, json = error_body ''No lessons found.''\<rparr>, w2)
                        else (Inr \<lparr>status = 200, json = VArr (map VObj regexResults)\<rparr>, w2))
                 else (Inr \<lparr>status = 200, json = VArr (map VObj results)\<rparr>, w1)))"

text \<open>The error-handling middleware, \<^verbatim>\<open>app.use((err, req, res, next) => ...)\<close>.\<close>

definition errorResponder :: "js_error \<Rightarrow> world \<Rightarrow> response \<times> world" where
  "errorResponder err w =
     (\<lparr>status = 500,
       json = VObj [(''message'', VStr ''Something went wrong!''),
                    (''error'', VStr (if err_message err = [] then ''Internal Server Error''
                                      else err_message err))]\<rparr>,
      say (Console_error_stack (err_stack err)) w)"

text \<open>What the client receives: the handler's response, or the error responder's.\<close>

definition respond :: "outcome \<Rightarrow> response \<times> world" where
  "respond out =
     (case out of
        (Inl err, w) \<Rightarrow> errorResponder err w
      | (Inr r, w) \<Rightarrow> (r, w))"

text \<open>\<^verbatim>\<open>app.get("/lessons", ...)\<close>\<close>

definition getLessons :: "world \<Rightarrow> outcome" where
  "getLessons w =
     (case findAll w of
        (Inr classes, w') \<Rightarrow> (Inr \<lparr>status = 200, json = VArr (map VObj classes)\<rparr>, w')
      | (Inl err, w') \<Rightarrow> (Inl err, say (Console_error ''Error fetching lessons:'' err) w'))"

text \<open>
  Reading a property of a parsed body: an object holds what its key holds (a parsed
  object holds a key once), and \<^verbatim>\<open>orderInfo\<close> and \<^verbatim>\<open>lessonId\<close> are
  \<^verbatim>\<open>undefined\<close> on every other value.
\<close>

definition property :: "string \<Rightarrow> jsval \<Rightarrow> jsval" where
  "property k v =
     (case v of
        VObj kvs \<Rightarrow> (case map_of kvs k of Some x \<Rightarrow> x | None \<Rightarrow> VUndefined)
      | _ \<Rightarrow> VUndefined)"

text \<open>
  \<^verbatim>\<open>app.post("/order", ...)\<close>; the argument is \<^verbatim>\<open>req.body\<close>.  Destructuring
  \<^verbatim>\<open>undefined\<close> or \<^verbatim>\<open>null\<close> throws, and so does \<^verbatim>\<open>lessonId.every\<close> on
  anything but an array.
\<close>

definition postOrder :: "env \<Rightarrow> jsval \<Rightarrow> world \<Rightarrow> outcome" where
  "postOrder e orderData w =
     (if orderData = VUndefined \<or> orderData = VNull then (Inl (typeError e orderData), w)
      else
        (let orderInfo = property ''orderInfo'' orderData;
             lessonId = property ''lessonId'' orderData
         in case lessonId of
              VArr ids \<Rightarrow>
                if \<not> list_all (isValid e) ids then
                  (Inr \<lparr>status = 400, json = error_body ''One or more lesson IDs are invalid.''\<rparr>, w)
                else
                  (case insertOne e [(''orderInfo'', orderInfo), (''lessonId'', lessonId)]
                          (say (Console_log ''Order received:'' orderData) w) of
                     (Inr i, w') \<Rightarrow>
                       (Inr \<lparr>status = 201,
                             json = VObj [(''message'', VStr ''Order placed successfully''),
                                          (''insertedId'', VId i)]\<rparr>, w')
                   | (Inl err, w') \<Rightarrow>
                       (Inl err, say (Console_error ''Error saving order:'' err) w'))
            | _ \<Rightarrow> (Inl (typeError e lessonId), w)))"

text \<open>\<^verbatim>\<open>!v\<close> is \<open>\<not> truthy v\<close>; \<open>keys_length v\<close> is \<^verbatim>\<open>Object.keys(v).length\<close>.\<close>

definition truthy :: "jsval \<Rightarrow> bool" where
  "truthy v =
     (case v of
        VUndefined \<Rightarrow> False
      | VNull \<Rightarrow> False
      | VBool b \<Rightarrow> b
      | VNum n \<Rightarrow> n \<noteq> 0
      | VStr s \<Rightarrow> s \<noteq> []
      | _ \<Rightarrow> True)"

definition keys_length :: "jsval \<Rightarrow> nat" where
  "keys_length v =
     (case v of
        VObj kvs \<Rightarrow> length kvs
      | VArr xs \<Rightarrow> length xs
      | VStr s \<Rightarrow> length s
      | _ \<Rightarrow> 0)"

text \<open>\<^verbatim>\<open>app.put("/updateLesson/:id", ...)\<close>; the arguments are \<^verbatim>\<open>req.params.id\<close> and
  \<^verbatim>\<open>req.body\<close>.\<close>

definition updateLesson :: "env \<Rightarrow> string \<Rightarrow> jsval \<Rightarrow> world \<Rightarrow> outcome" where
  "updateLesson e lessonId updatedData w =
     (if \<not> isValid e (VStr lessonId) then
        (Inr \<lparr>status = 408, json = error_body ''Invalid lesson ID.''\<rparr>, w)
      else if \<not> truthy updatedData \<or> keys_length updatedData = 0 then
        (Inr \<lparr>status = 408, json = error_body ''No data provided for update.''\<rparr>, w)
      else
        (case updateOne e (objectId e lessonId) updatedData w of
           (Inr modifiedCount, w') \<Rightarrow>
             if modifiedCount > 0 then
               (Inr \<lparr>status = 200, json = message_body ''Lesson updated successfully''\<rparr>, w')
             else
               (Inr \<lparr>status = 408,
                     json = error_body ''Lesson not found or no fields changed.''\<rparr>, w')
         | (Inl err, w') \<Rightarrow> (Inl err, say (Console_error ''Error updating lesson:'' err) w')))"

text \<open>\<^verbatim>\<open>app.delete("/deleteLesson/:id", ...)\<close>\<close>

definition deleteLesson :: "env \<Rightarrow> string \<Rightarrow> world \<Rightarrow> outcome" where
  "deleteLesson e lessonId w =
     (if \<not> isValid e (VStr lessonId) then
        (Inr \<lparr>status = 408, json = error_body ''Invalid lesson ID.''\<rparr>, w)
      else
        (case deleteOne (objectId e lessonId) w of
           (Inr deletedCount, w') \<Rightarrow>
             if deletedCount > 0 then
               (Inr \<lparr>status = 200, json = message_body ''Lesson deleted successfully''\<rparr>, w')
             else (Inr \<lparr>status = 408, json = error_body ''Lesson not found.''\<rparr>, w')
         | (Inl err, w') \<Rightarrow> (Inl err, say (Console_error ''Error deleting lesson:'' err) w')))"

text \<open>\<^verbatim>\<open>app.get("/health", ...)\<close>; the argument is the reading of the system clock
  that \<^verbatim>\<open>new Date()\<close> takes.\<close>

definition health :: "int \<Rightarrow> response" where
  "health now =
     \<lparr>status = 200,
      json = VObj [(''status'', VStr ''success''),
                   (''message'', VStr ''Server is healthy and running!''),
                   (''timestamp'', VDate now)]\<rparr>"

section \<open>What the specification speaks of\<close>







definition next_ok :: "world \<Rightarrow> bool" where
  "next_ok w = (case faults w of Some err # fs \<Rightarrow> False | _ \<Rightarrow> True)"

section \<open>A sample deployment\<close>

text \<open>
  An environment and a store on which the handlers can be run.  Identifiers are strings
  of 24 hexadecimal digits, read as numbers; the text index matches a query that shares
  a whole word with the subject or the location; patterns and update documents outside
  the modelled fragments are rejected.  The store holds two lessons.
\<close>

definition hexDigit :: "char \<Rightarrow> nat option" where
  "hexDigit c =
     map_of (zip ''0123456789abcdef'' [0, 1, 2, 3, 4, 5, 6, 7, 8, 9, 10, 11, 12, 13, 14, 15])
       (toLower c)"

definition hexString24 :: "jsval \<Rightarrow> bool" where
  "hexString24 v =
     (case v of
        VStr s \<Rightarrow> length s = 24 \<and> list_all (\<lambda>c. hexDigit c \<noteq> None) s
      | _ \<Rightarrow> False)"

definition hexNat :: "string \<Rightarrow> nat" where
  "hexNat s = foldl (\<lambda>a c. 16 * a + (case hexDigit c of Some n \<Rightarrow> n | None \<Rightarrow> 0)) 0 s"

definition alnum :: "char \<Rightarrow> bool" where
  "alnum c \<longleftrightarrow> toLower c \<in> set ''abcdefghijklmnopqrstuvwxyz0123456789''"

fun words_from :: "string \<Rightarrow> string \<Rightarrow> string list" where
  "words_from cur [] = (if cur = [] then [] else [cur])"
| "words_from cur (c # cs) =
     (if alnum c then words_from (cur @ [toLower c]) cs
      else (if cur = [] then [] else [cur]) @ words_from [] cs)"

definition field_words :: "jsval option \<Rightarrow> string list" where
  "field_words f = (case f of Some (VStr s) \<Rightarrow> words_from [] s | _ \<Rightarrow> [])"

definition wordMatch :: "string \<Rightarrow> doc \<Rightarrow> bool" where
  "wordMatch q d =
     list_ex
       (\<lambda>x. x \<in> set (field_words (map_of d ''subject'') @ field_words (map_of d ''location'')))
       (words_from [] q)"

definition sample_env :: env where
  "sample_env =
     \<lparr>isValid = hexString24,
      objectId = hexNat,
      generateId = (\<lambda>n. hexNat ''650000000000000000000000'' + n),
      textMatch = wordMatch,
      pcre = (\<lambda>p. Inl (JsError ''Regular expression is invalid''
                           ''MongoServerError: Regular expression is invalid'')),
      setOperator = (\<lambda>u. Inl (JsError ''Modifiers operate on fields''
                                  ''MongoServerError: Modifiers operate on fields'')),
      typeError = (\<lambda>v. JsError ''lessonId.every is not a function''
                              ''TypeError: lessonId.every is not a function'')\<rparr>"

definition maths :: doc where
  "maths = [(''_id'', VId (hexNat ''64b000000000000000000001'')), (''subject'', VStr ''Mathematics''),
            (''location'', VStr ''Hendon''), (''price'', VNum 100)]"

definition music :: doc where
  "music = [(''_id'', VId (hexNat ''64b000000000000000000002'')), (''subject'', VStr ''Music''),
            (''location'', VStr ''Colindale''), (''price'', VNum 90)]"

definition school :: world where
  "school =
     \<lparr>lessons = [maths, music], orders = [], faults = [], calls = [], console = [],
      generated = 0\<rparr>"



text \<open>The same store while the database cannot be reached: the next driver call is
  rejected.\<close>

definition outage :: world where
  "outage = school\<lparr>faults := [Some (JsError ''connect ECONNREFUSED 10.0.0.5:27017''
      ''MongoNetworkError: connect ECONNREFUSED 10.0.0.5:27017'')]\<rparr>"

section \<open>Facts about the driver and the pattern fragment\<close>





lemma driver_call_fields:
  "lessons (snd (driver_call c w)) = lessons w"
  "orders (snd (driver_call c w)) = orders w"
  "console (snd (driver_call c w)) = console w"
  "generated (snd (driver_call c w)) = generated w"
  "calls (snd (driver_call c w)) = calls w @ [c]"
  by (simp_all add: driver_call_def split: list.split)

lemma driver_call_ok: "next_ok w \<Longrightarrow> fst (driver_call c w) = None"
  by (auto simp: driver_call_def next_ok_def split: list.splits option.splits)





lemma driver_call_cases:
  obtains (ok) w' where "driver_call c w = (None, w')"
      "lessons w' = lessons w" "orders w' = orders w" "console w' = console w"
      "generated w' = generated w" "calls w' = calls w @ [c]"
  | (fault) err w' where "driver_call c w = (Some err, w')"
      "lessons w' = lessons w" "orders w' = orders w" "console w' = console w"
      "generated w' = generated w" "calls w' = calls w @ [c]"
proof (cases "driver_call c w")
  case (Pair r w')
  with driver_call_fields [of c w] have f: "lessons w' = lessons w" "orders w' = orders w"
      "console w' = console w" "generated w' = generated w" "calls w' = calls w @ [c]"
    by simp_all
  show ?thesis
  proof (cases r)
    case None
    with Pair f show ?thesis by (intro ok) simp_all
  next
    case (Some err)
    with Pair f show ?thesis by (intro fault) simp_all
  qed
qed

lemma driver_call_okE:
  assumes "next_ok w"
  obtains w' where "driver_call c w = (None, w')"
      "lessons w' = lessons w" "orders w' = orders w" "console w' = console w"
      "generated w' = generated w" "calls w' = calls w @ [c]"
proof (rule driver_call_cases [where c = c and w = w])
  fix w' assume "driver_call c w = (None, w')"
    "lessons w' = lessons w" "orders w' = orders w" "console w' = console w"
    "generated w' = generated w" "calls w' = calls w @ [c]"
  then show ?thesis by (rule that)
next
  fix err w' assume "driver_call c w = (Some err, w')"
  with driver_call_ok [OF assms, of c] show ?thesis by simp
qed

lemma insertOne_ok:
  assumes "next_ok w"
  shows "fst (insertOne e d w) = Inr (generateId e (generated w))"
    and "orders (snd (insertOne e d w)) =
           orders w @ [(''_id'', VId (generateId e (generated w)))
                         # map (\<lambda>kv. (fst kv, serialize (snd kv))) d]"
    and "lessons (snd (insertOne e d w)) = lessons w"
proof -
  obtain w' where dc: "driver_call (Insert_one d) w = (None, w')"
    and f: "lessons w' = lessons w" "orders w' = orders w" "generated w' = generated w"
    using assms by (rule driver_call_okE)
  show "fst (insertOne e d w) = Inr (generateId e (generated w))"
    and "orders (snd (insertOne e d w)) =
           orders w @ [(''_id'', VId (generateId e (generated w)))
                         # map (\<lambda>kv. (fst kv, serialize (snd kv))) d]"
    and "lessons (snd (insertOne e d w)) = lessons w"
    by (simp_all add: insertOne_def dc f Let_def)
qed

lemma serialize_defined: "defined v \<Longrightarrow> serialize v = v"
  by (induction v rule: serialize.induct) (auto simp: list_all_iff map_idI)

lemma property_array_object:
  "property k v = VArr ids \<Longrightarrow> v \<noteq> VUndefined \<and> v \<noteq> VNull"
  by (auto simp: property_def)

section \<open>Facts about updating and deleting\<close>

lemma update_first_none: "\<not> list_ex P ds \<Longrightarrow> update_first P f ds = Inr (0, ds)"
  by (induction ds) auto




lemma splitPath_nonempty: "splitPath k \<noteq> []"
  by (induction k) (auto split: list.splits)













lemma updateOne_absent:
  assumes "next_ok w" "setCompile e upd = Inr f" "\<not> list_ex (has_id i) (lessons w)"
  shows "fst (updateOne e i upd w) = Inr 0"
proof -
  obtain w' where dc: "driver_call (Update_one i upd) w = (None, w')"
    and f: "lessons w' = lessons w"
    using assms(1) by (rule driver_call_okE)
  show ?thesis
    using assms(2,3) by (simp add: updateOne_def dc f update_first_none)
qed




lemma delete_first_none: "\<not> list_ex P ds \<Longrightarrow> delete_first P ds = (0, ds)"
  by (induction ds) auto

lemma delete_first_some:
  "list_ex P ds \<Longrightarrow> \<exists>d\<in>set ds. P d \<and> delete_first P ds = (1, remove1 d ds)"
proof (induction ds)
  case Nil
  then show ?case by simp
next
  case (Cons a ds)
  show ?case
  proof (cases "P a")
    case True
    then show ?thesis by (intro bexI [of _ a]) simp_all
  next
    case False
    with Cons obtain d where d: "d \<in> set ds" "P d" "delete_first P ds = (1, remove1 d ds)"
      by auto
    with False have "a \<noteq> d" by auto
    with d False show ?thesis by (intro bexI [of _ d]) simp_all
  qed
qed

lemma removed_id_gone:
  assumes "distinct (map (\<lambda>d. map_of d ''_id'') ds)" "d \<in> set ds" "has_id i d"
  shows "\<not> list_ex (has_id i) (remove1 d ds)"
proof
  assume "list_ex (has_id i) (remove1 d ds)"
  then obtain d2 where d2: "d2 \<in> set (remove1 d ds)" "has_id i d2"
    by (auto simp: list_ex_iff)
  from assms(1) have inj: "inj_on (\<lambda>d. map_of d ''_id'') (set ds)" and dist: "distinct ds"
    by (simp_all add: distinct_map)
  from d2(1) dist have "d2 \<in> set ds" "d2 \<noteq> d" by auto
  moreover from d2(2) assms(3) have "map_of d2 ''_id'' = map_of d ''_id''"
    by (simp add: has_id_def)
  ultimately show False using inj assms(2) by (auto dest: inj_onD)
qed

lemma deleteOne_ok:
  assumes "next_ok w"
  shows "fst (deleteOne i w) = Inr (fst (delete_first (has_id i) (lessons w)))"
    and "lessons (snd (deleteOne i w)) = snd (delete_first (has_id i) (lessons w))"
    and "faults (snd (deleteOne i w)) = tl (faults w)"
proof -
  obtain w' where dc: "driver_call (Delete_one i) w = (None, w')"
    and f: "lessons w' = lessons w"
    using assms by (rule driver_call_okE)
  from dc have "faults w' = tl (faults w)"
    by (auto simp: driver_call_def split: list.splits)
  then show "fst (deleteOne i w) = Inr (fst (delete_first (has_id i) (lessons w)))"
    and "lessons (snd (deleteOne i w)) = snd (delete_first (has_id i) (lessons w))"
    and "faults (snd (deleteOne i w)) = tl (faults w)"
    by (simp_all add: deleteOne_def dc f split: prod.split)
qed

lemma deleteOne_lessons:
  "lessons (snd (deleteOne i w)) = lessons w
   \<or> (\<exists>d\<in>set (lessons w). has_id i d \<and> lessons (snd (deleteOne i w)) = remove1 d (lessons w))"
proof (rule driver_call_cases [where c = "Delete_one i" and w = w])
  fix err w' assume "driver_call (Delete_one i) w = (Some err, w')" "lessons w' = lessons w"
  then show ?thesis by (simp add: deleteOne_def)
next
  fix w' assume dc: "driver_call (Delete_one i) w = (None, w')" and f: "lessons w' = lessons w"
  show ?thesis
  proof (cases "list_ex (has_id i) (lessons w)")
    case False
    then show ?thesis by (simp add: deleteOne_def dc f delete_first_none)
  next
    case True
    from delete_first_some [OF True] obtain d where "d \<in> set (lessons w)" "has_id i d"
      "delete_first (has_id i) (lessons w) = (1, remove1 d (lessons w))" by auto
    then show ?thesis by (auto simp: deleteOne_def dc f)
  qed
qed

section \<open>Facts about the sample deployment\<close>

lemma sample_ids:
  "isValid sample_env (VStr ''64b000000000000000000001'')"
  "isValid sample_env (VStr ''64b000000000000000000009'')"
  "\<not> isValid sample_env (VStr ''nope'')"
  "objectId sample_env ''64b000000000000000000001'' = hexNat ''64b000000000000000000001''"
  "objectId sample_env ''64b000000000000000000009'' = hexNat ''64b000000000000000000009''"
  "isValid sample_env (VStr ''64b000000000000000000003'')"
  "objectId sample_env ''64b000000000000000000003'' = hexNat ''64b000000000000000000003''"
  by (simp_all add: sample_env_def hexString24_def hexDigit_def toLower_def)

lemma sample_ids_differ:
  "hexNat ''64b000000000000000000009'' \<noteq> hexNat ''64b000000000000000000001''"
  "hexNat ''64b000000000000000000009'' \<noteq> hexNat ''64b000000000000000000002''"
  "hexNat ''64b000000000000000000002'' \<noteq> hexNat ''64b000000000000000000001''"
  by (simp_all add: hexNat_def hexDigit_def toLower_def)

section \<open>Search\<close>




text \<open>
  C2.  A request whose query parameter is absent or empty is answered with 406, and the
  world is left as it was: no driver call is issued, nothing is written.
\<close>

theorem search_requires_query:
  "searchQuery = None \<or> searchQuery = Some [] \<Longrightarrow>
   search e searchQuery w =
     (Inr \<lparr>status = 406, json = error_body ''Search query is required.''\<rparr>, w)"
  by (auto simp: search_def)

theorem search_requires_query_witness:
  "search sample_env None school =
     (Inr \<lparr>status = 406, json = error_body ''Search query is required.''\<rparr>, school)
   \<and> search sample_env (Some []) school =
     (Inr \<lparr>status = 406, json = error_body ''Search query is required.''\<rparr>, school)"
  using search_requires_query [of None sample_env school]
    search_requires_query [of "Some []" sample_env school]
  by simp

text \<open>
  C3.  For a non-empty query, when the text search and then the fallback both come back
  with no document, the answer is 404, a response of the handler's own.
\<close>

theorem search_not_found:
  assumes "q \<noteq> []"
    and "fst (findText e q w) = Inr []"
    and "fst (findRegex e q (snd (findText e q w))) = Inr []"
  shows "fst (search e (Some q) w) = Inr \<lparr>status = 404, json = error_body ''No lessons found.''\<rparr>"
  using assms
  by (cases "findText e q w"; cases "findRegex e q (snd (findText e q w))") (simp add: search_def)



theorem search_not_found_witness:
  "fst (findText sample_env ''zzz'' school) = Inr []
   \<and> fst (findRegex sample_env ''zzz'' (snd (findText sample_env ''zzz'' school))) = Inr []
   \<and> fst (search sample_env (Some ''zzz'') school) =
       Inr \<lparr>status = 404, json = error_body ''No lessons found.''\<rparr>"
proof -
  have t: "findText sample_env ''zzz'' school = (Inr [], school\<lparr>calls := [Find_text ''zzz'']\<rparr>)"
    by (simp add: findText_def driver_call_def school_def sample_env_def wordMatch_def alnum_def
        toLower_def field_words_def maths_def music_def)
  have r: "fst (findRegex sample_env ''zzz'' (school\<lparr>calls := [Find_text ''zzz'']\<rparr>)) = Inr []"
    by (simp add: findRegex_def driver_call_def school_def regexCompile_def
        maths_def music_def field_matches_def literal_char_def char_matches_def toLower_def)
  from search_not_found [of "''zzz''" sample_env school] t r show ?thesis by simp
qed

section \<open>Orders\<close>

text \<open>
  C4.  For a body whose \<^verbatim>\<open>lessonId\<close> is an array: if some entry is rejected by
  \<^verbatim>\<open>ObjectId.isValid\<close>, the answer is 400 and the world is left as it was (no
  driver call, nothing persisted); if every entry is accepted and the store takes the
  insert, the answer is 201 with the generated identifier as \<^verbatim>\<open>insertedId\<close>, and the
  order collection has grown by exactly the document made of that identifier, the
  \<^verbatim>\<open>orderInfo\<close> and the \<^verbatim>\<open>lessonId\<close> of the request as the driver writes them:
  a value without \<^verbatim>\<open>undefined\<close> inside as it is, and an \<^verbatim>\<open>orderInfo\<close> the
  body does not have as null.
\<close>

theorem postOrder_validates:
  assumes "property ''lessonId'' orderData = VArr ids"
  shows "(\<not> list_all (isValid e) ids \<longrightarrow>
            postOrder e orderData w =
              (Inr \<lparr>status = 400, json = error_body ''One or more lesson IDs are invalid.''\<rparr>, w))
       \<and> (list_all (isValid e) ids \<and> next_ok w \<longrightarrow>
            fst (postOrder e orderData w) =
              Inr \<lparr>status = 201,
                   json = VObj [(''message'', VStr ''Order placed successfully''),
                                (''insertedId'', VId (generateId e (generated w)))]\<rparr>
          \<and> orders (snd (postOrder e orderData w)) =
              orders w @ [[(''_id'', VId (generateId e (generated w))),
                           (''orderInfo'', serialize (property ''orderInfo'' orderData)),
                           (''lessonId'', VArr (map serialize ids))]]
          \<and> lessons (snd (postOrder e orderData w)) = lessons w)
       \<and> (defined v \<longrightarrow> serialize v = v)
       \<and> serialize VUndefined = VNull"
proof (intro conjI impI)
  assume "\<not> list_all (isValid e) ids"
  with assms property_array_object [OF assms]
  show "postOrder e orderData w =
          (Inr \<lparr>status = 400, json = error_body ''One or more lesson IDs are invalid.''\<rparr>, w)"
    by (simp add: postOrder_def)
next
  let ?d = "[(''orderInfo'', property ''orderInfo'' orderData), (''lessonId'', VArr ids)]"
  let ?w1 = "say (Console_log ''Order received:'' orderData) w"
  assume h: "list_all (isValid e) ids \<and> next_ok w"
  then have ok1: "next_ok ?w1" by (simp add: next_ok_def say_def)
  have g: "generated ?w1 = generated w" "orders ?w1 = orders w" "lessons ?w1 = lessons w"
    by (simp_all add: say_def)
  have p: "postOrder e orderData w =
             (case insertOne e ?d ?w1 of
                (Inr i, w') \<Rightarrow>
                  (Inr \<lparr>status = 201,
                        json = VObj [(''message'', VStr ''Order placed successfully''),
                                     (''insertedId'', VId i)]\<rparr>, w')
              | (Inl err, w') \<Rightarrow> (Inl err, say (Console_error ''Error saving order:'' err) w'))"
    using assms property_array_object [OF assms] h by (simp add: postOrder_def)
  obtain r w2 where i: "insertOne e ?d ?w1 = (r, w2)" by (cases "insertOne e ?d ?w1")
  from insertOne_ok [OF ok1, of e ?d] i g
  have r: "r = Inr (generateId e (generated w))"
    and o: "orders w2 =
              orders w @ [[(''_id'', VId (generateId e (generated w))),
                           (''orderInfo'', serialize (property ''orderInfo'' orderData)),
                           (''lessonId'', VArr (map serialize ids))]]"
    and l: "lessons w2 = lessons w"
    by simp_all
  from p i r show "fst (postOrder e orderData w) =
              Inr \<lparr>status = 201,
                   json = VObj [(''message'', VStr ''Order placed successfully''),
                                (''insertedId'', VId (generateId e (generated w)))]\<rparr>"
    by simp
  from p i r o show "orders (snd (postOrder e orderData w)) =
              orders w @ [[(''_id'', VId (generateId e (generated w))),
                           (''orderInfo'', serialize (property ''orderInfo'' orderData)),
                           (''lessonId'', VArr (map serialize ids))]]"
    by simp
  from p i r l show "lessons (snd (postOrder e orderData w)) = lessons w"
    by simp
next
  assume "defined v"
  then show "serialize v = v" by (rule serialize_defined)
next
  show "serialize VUndefined = VNull" by simp
qed

text \<open>
  An order with an invalid entry, an order with \<^verbatim>\<open>orderInfo\<close>, and an order without:
  the last is stored with \<^verbatim>\<open>orderInfo\<close> null.
\<close>

theorem postOrder_validates_witness:
  "postOrder sample_env
     (VObj [(''orderInfo'', VStr ''Ann''),
            (''lessonId'', VArr [VStr ''64b000000000000000000001'', VStr ''abc''])]) school =
     (Inr \<lparr>status = 400, json = error_body ''One or more lesson IDs are invalid.''\<rparr>, school)
   \<and> fst (postOrder sample_env
          (VObj [(''orderInfo'', VStr ''Ann''),
                 (''lessonId'', VArr [VStr ''64b000000000000000000001''])]) school) =
       Inr \<lparr>status = 201,
            json = VObj [(''message'', VStr ''Order placed successfully''),
                         (''insertedId'', VId (hexNat ''650000000000000000000000''))]\<rparr>
   \<and> orders (snd (postOrder sample_env
          (VObj [(''orderInfo'', VStr ''Ann''),
                 (''lessonId'', VArr [VStr ''64b000000000000000000001''])]) school)) =
       [[(''_id'', VId (hexNat ''650000000000000000000000'')), (''orderInfo'', VStr ''Ann''),
         (''lessonId'', VArr [VStr ''64b000000000000000000001''])]]
   \<and> orders (snd (postOrder sample_env
          (VObj [(''lessonId'', VArr [VStr ''64b000000000000000000001''])]) school)) =
       [[(''_id'', VId (hexNat ''650000000000000000000000'')), (''orderInfo'', VNull),
         (''lessonId'', VArr [VStr ''64b000000000000000000001''])]]"
proof -
  have v: "isValid sample_env (VStr ''64b000000000000000000001'')"
    "\<not> isValid sample_env (VStr ''abc'')"
    by (simp_all add: sample_env_def hexString24_def hexDigit_def toLower_def)
  have s: "next_ok school" "generated school = 0" "orders school = []"
    by (simp_all add: school_def next_ok_def)
  have g: "generateId sample_env 0 = hexNat ''650000000000000000000000''"
    by (simp add: sample_env_def)
  from postOrder_validates [of "VObj [(''orderInfo'', VStr ''Ann''),
            (''lessonId'', VArr [VStr ''64b000000000000000000001'', VStr ''abc''])]"
      "[VStr ''64b000000000000000000001'', VStr ''abc'']" sample_env school]
    postOrder_validates [of "VObj [(''orderInfo'', VStr ''Ann''),
            (''lessonId'', VArr [VStr ''64b000000000000000000001''])]"
      "[VStr ''64b000000000000000000001'']" sample_env school]
    postOrder_validates [of "VObj [(''lessonId'', VArr [VStr ''64b000000000000000000001''])]"
      "[VStr ''64b000000000000000000001'']" sample_env school]
    v s g
  show ?thesis by (simp add: property_def)
qed

text \<open>
  C10.  For a body without a \<^verbatim>\<open>lessonId\<close>, or whose \<^verbatim>\<open>lessonId\<close> is not an
  array, the handler throws before it has validated anything: the error goes to the error
  responder, the answer is 500 with the message ``Something went wrong!'' and not the 400
  of an invalid identifier, no driver call is issued and both collections are as before.
\<close>

theorem postOrder_without_array:
  assumes "\<forall>ids. property ''lessonId'' orderData \<noteq> VArr ids"
  shows "(\<exists>err. postOrder e orderData w = (Inl err, w)
              \<and> respond (postOrder e orderData w) = errorResponder err w)
       \<and> status (fst (respond (postOrder e orderData w))) = 500
       \<and> (\<exists>m. json (fst (respond (postOrder e orderData w))) =
                VObj [(''message'', VStr ''Something went wrong!''), (''error'', VStr m)])
       \<and> orders (snd (respond (postOrder e orderData w))) = orders w
       \<and> lessons (snd (respond (postOrder e orderData w))) = lessons w
       \<and> calls (snd (respond (postOrder e orderData w))) = calls w"
proof -
  define v where "v = (if orderData = VUndefined \<or> orderData = VNull then orderData
                       else property ''lessonId'' orderData)"
  have p: "postOrder e orderData w = (Inl (typeError e v), w)"
    using assms by (auto simp: postOrder_def v_def Let_def split: jsval.splits)
  then have r: "respond (postOrder e orderData w) = errorResponder (typeError e v) w"
    by (simp add: respond_def)
  show ?thesis
    using p r by (auto simp: errorResponder_def say_def)
qed

theorem postOrder_without_array_witness:
  "status (fst (respond (postOrder sample_env (VObj [(''orderInfo'', VStr ''Ann'')]) school))) = 500
   \<and> orders (snd (respond (postOrder sample_env (VObj [(''orderInfo'', VStr ''Ann'')]) school))) = []
   \<and> calls (snd (respond (postOrder sample_env (VObj [(''orderInfo'', VStr ''Ann'')]) school))) = []
   \<and> status (fst (respond (postOrder sample_env
         (VObj [(''orderInfo'', VStr ''Ann''), (''lessonId'', VStr ''64b000000000000000000001'')])
         school))) = 500
   \<and> status (fst (respond (postOrder sample_env VUndefined school))) = 500"
proof -
  have s: "orders school = []" "calls school = []"
    by (simp_all add: school_def)
  from postOrder_without_array [of "VObj [(''orderInfo'', VStr ''Ann'')]" sample_env school]
    postOrder_without_array [of "VObj [(''orderInfo'', VStr ''Ann''),
        (''lessonId'', VStr ''64b000000000000000000001'')]" sample_env school]
    postOrder_without_array [of VUndefined sample_env school]
    s
  show ?thesis by (simp add: property_def)
qed

section \<open>Updating and deleting a lesson\<close>

text \<open>
  C5.  \<^verbatim>\<open>PUT /updateLesson/:id\<close> answers 408 and leaves the world as it was when the
  identifier is not valid, and again when the identifier is valid and the body is absent or
  empty.  Otherwise the update is issued: when it reports no modified document the answer
  is 408, when it reports one the answer is the success response.  In particular a valid
  identifier that no lesson has gives 408, provided the store takes the call and accepts the
  update document.
\<close>

theorem updateLesson_statuses:
  "(\<not> isValid e (VStr lessonId) \<longrightarrow>
      updateLesson e lessonId updatedData w =
        (Inr \<lparr>status = 408, json = error_body ''Invalid lesson ID.''\<rparr>, w))
   \<and> (isValid e (VStr lessonId)
        \<and> (updatedData = VUndefined \<or> updatedData = VObj [] \<or> updatedData = VArr []) \<longrightarrow>
      updateLesson e lessonId updatedData w =
        (Inr \<lparr>status = 408, json = error_body ''No data provided for update.''\<rparr>, w))
   \<and> (isValid e (VStr lessonId) \<and> truthy updatedData \<and> 0 < keys_length updatedData \<longrightarrow>
        (\<forall>n. fst (updateOne e (objectId e lessonId) updatedData w) = Inr n \<longrightarrow>
           fst (updateLesson e lessonId updatedData w) =
             (if n = 0 then
                Inr \<lparr>status = 408, json = error_body ''Lesson not found or no fields changed.''\<rparr>
              else Inr \<lparr>status = 200, json = message_body ''Lesson updated successfully''\<rparr>))
      \<and> (next_ok w \<and> setCompile e updatedData = Inr f
            \<and> \<not> list_ex (has_id (objectId e lessonId)) (lessons w) \<longrightarrow>
           fst (updateLesson e lessonId updatedData w) =
             Inr \<lparr>status = 408, json = error_body ''Lesson not found or no fields changed.''\<rparr>))"
proof (intro conjI impI allI)
  assume "\<not> isValid e (VStr lessonId)"
  then show "updateLesson e lessonId updatedData w =
        (Inr \<lparr>status = 408, json = error_body ''Invalid lesson ID.''\<rparr>, w)"
    by (simp add: updateLesson_def)
next
  assume "isValid e (VStr lessonId)
        \<and> (updatedData = VUndefined \<or> updatedData = VObj [] \<or> updatedData = VArr [])"
  then show "updateLesson e lessonId updatedData w =
        (Inr \<lparr>status = 408, json = error_body ''No data provided for update.''\<rparr>, w)"
    by (auto simp: updateLesson_def truthy_def keys_length_def)
next
  fix n
  assume "isValid e (VStr lessonId) \<and> truthy updatedData \<and> 0 < keys_length updatedData"
    and "fst (updateOne e (objectId e lessonId) updatedData w) = Inr n"
  then show "fst (updateLesson e lessonId updatedData w) =
             (if n = 0 then
                Inr \<lparr>status = 408, json = error_body ''Lesson not found or no fields changed.''\<rparr>
              else Inr \<lparr>status = 200, json = message_body ''Lesson updated successfully''\<rparr>)"
    by (cases "updateOne e (objectId e lessonId) updatedData w") (simp add: updateLesson_def)
next
  assume a: "isValid e (VStr lessonId) \<and> truthy updatedData \<and> 0 < keys_length updatedData"
    and b: "next_ok w \<and> setCompile e updatedData = Inr f
            \<and> \<not> list_ex (has_id (objectId e lessonId)) (lessons w)"
  from b have "fst (updateOne e (objectId e lessonId) updatedData w) = Inr 0"
    by (simp add: updateOne_absent)
  with a show "fst (updateLesson e lessonId updatedData w) =
             Inr \<lparr>status = 408, json = error_body ''Lesson not found or no fields changed.''\<rparr>"
    by (cases "updateOne e (objectId e lessonId) updatedData w") (simp add: updateLesson_def)
qed

theorem updateLesson_statuses_witness:
  "updateLesson sample_env ''nope'' (VObj [(''price'', VNum 5)]) school =
     (Inr \<lparr>status = 408, json = error_body ''Invalid lesson ID.''\<rparr>, school)
   \<and> updateLesson sample_env ''64b000000000000000000001'' (VObj []) school =
     (Inr \<lparr>status = 408, json = error_body ''No data provided for update.''\<rparr>, school)
   \<and> fst (updateLesson sample_env ''64b000000000000000000001'' (VObj [(''price'', VNum 5)]) school) =
     Inr \<lparr>status = 200, json = message_body ''Lesson updated successfully''\<rparr>
   \<and> fst (updateLesson sample_env ''64b000000000000000000001'' (VObj [(''price'', VNum 100)]) school) =
     Inr \<lparr>status = 408, json = error_body ''Lesson not found or no fields changed.''\<rparr>
   \<and> fst (updateLesson sample_env ''64b000000000000000000009'' (VObj [(''price'', VNum 5)]) school) =
     Inr \<lparr>status = 408, json = error_body ''Lesson not found or no fields changed.''\<rparr>"
proof -
  let ?i = "''64b000000000000000000001''" and ?j = "''64b000000000000000000009''"
  obtain f where c: "setCompile sample_env (VObj [(''price'', VNum 5)]) = Inr f"
    by (simp add: setCompile_def path_update_def field_path_def field_name_def)
  have u1: "fst (updateOne sample_env (objectId sample_env ?i) (VObj [(''price'', VNum 5)]) school) = Inr 1"
    by (simp add: sample_ids updateOne_def driver_call_def school_def setCompile_def
        path_update_def field_path_def field_name_def has_id_def maths_def)
  have u0: "fst (updateOne sample_env (objectId sample_env ?i) (VObj [(''price'', VNum 100)]) school) = Inr 0"
    by (simp add: sample_ids updateOne_def driver_call_def school_def setCompile_def
        path_update_def field_path_def field_name_def has_id_def maths_def)
  have absent: "\<not> list_ex (has_id (objectId sample_env ?j)) (lessons school)"
    by (simp add: sample_ids sample_ids_differ [symmetric] school_def has_id_def maths_def
        music_def)
  have ok: "next_ok school"
    by (simp add: school_def next_ok_def)
  have ne: "truthy (VObj [(''price'', VNum 5)])" "0 < keys_length (VObj [(''price'', VNum 5)])"
    "truthy (VObj [(''price'', VNum 100)])" "0 < keys_length (VObj [(''price'', VNum 100)])"
    by (simp_all add: truthy_def keys_length_def)
  from updateLesson_statuses [of sample_env "''nope''" "VObj [(''price'', VNum 5)]" school]
  have a: "updateLesson sample_env ''nope'' (VObj [(''price'', VNum 5)]) school =
     (Inr \<lparr>status = 408, json = error_body ''Invalid lesson ID.''\<rparr>, school)"
    using sample_ids by simp
  from updateLesson_statuses [of sample_env ?i "VObj []" school]
  have b: "updateLesson sample_env ?i (VObj []) school =
     (Inr \<lparr>status = 408, json = error_body ''No data provided for update.''\<rparr>, school)"
    using sample_ids by simp
  from updateLesson_statuses [of sample_env ?i "VObj [(''price'', VNum 5)]" school]
  have d: "fst (updateLesson sample_env ?i (VObj [(''price'', VNum 5)]) school) =
     Inr \<lparr>status = 200, json = message_body ''Lesson updated successfully''\<rparr>"
    using sample_ids(1) ne u1 by simp
  from updateLesson_statuses [of sample_env ?i "VObj [(''price'', VNum 100)]" school]
  have e: "fst (updateLesson sample_env ?i (VObj [(''price'', VNum 100)]) school) =
     Inr \<lparr>status = 408, json = error_body ''Lesson not found or no fields changed.''\<rparr>"
    using sample_ids(1) ne u0 by simp
  from updateLesson_statuses [of sample_env ?j "VObj [(''price'', VNum 5)]" school f]
  have g: "fst (updateLesson sample_env ?j (VObj [(''price'', VNum 5)]) school) =
     Inr \<lparr>status = 408, json = error_body ''Lesson not found or no fields changed.''\<rparr>"
    using sample_ids(2) ne ok c absent by simp
  from a b d e g show ?thesis by simp
qed




text \<open>
  C6.  \<^verbatim>\<open>DELETE /deleteLesson/:id\<close> answers 408 and leaves the world as it was when
  the identifier is not valid.  Otherwise the delete is issued: when it reports no deleted
  document the answer is 408, when it reports one the answer is the success response.  A
  valid identifier that no lesson has gives 408; one that a lesson has gives the success
  response and a collection one document shorter; and where identifiers are unique, the
  same request repeated after that gives 408.  In every case the lessons afterwards are
  the lessons before, or those with one document of that identifier removed.
\<close>

theorem deleteLesson_statuses:
  "(\<not> isValid e (VStr lessonId) \<longrightarrow>
      deleteLesson e lessonId w =
        (Inr \<lparr>status = 408, json = error_body ''Invalid lesson ID.''\<rparr>, w))
   \<and> (isValid e (VStr lessonId) \<longrightarrow>
        (\<forall>n. fst (deleteOne (objectId e lessonId) w) = Inr n \<longrightarrow>
           fst (deleteLesson e lessonId w) =
             (if n = 0 then Inr \<lparr>status = 408, json = error_body ''Lesson not found.''\<rparr>
              else Inr \<lparr>status = 200, json = message_body ''Lesson deleted successfully''\<rparr>))
      \<and> (next_ok w \<and> \<not> list_ex (has_id (objectId e lessonId)) (lessons w) \<longrightarrow>
           fst (deleteLesson e lessonId w) =
             Inr \<lparr>status = 408, json = error_body ''Lesson not found.''\<rparr>)
      \<and> (next_ok w \<and> list_ex (has_id (objectId e lessonId)) (lessons w) \<longrightarrow>
           fst (deleteLesson e lessonId w) =
             Inr \<lparr>status = 200, json = message_body ''Lesson deleted successfully''\<rparr>
           \<and> Suc (length (lessons (snd (deleteLesson e lessonId w)))) = length (lessons w))
      \<and> (next_ok w \<and> next_ok (snd (deleteLesson e lessonId w))
            \<and> distinct (map (\<lambda>d. map_of d ''_id'') (lessons w)) \<longrightarrow>
           fst (deleteLesson e lessonId (snd (deleteLesson e lessonId w))) =
             Inr \<lparr>status = 408, json = error_body ''Lesson not found.''\<rparr>))
   \<and> (lessons (snd (deleteLesson e lessonId w)) = lessons w
        \<or> (\<exists>d\<in>set (lessons w). has_id (objectId e lessonId) d
              \<and> lessons (snd (deleteLesson e lessonId w)) = remove1 d (lessons w)))"
proof -
  let ?i = "objectId e lessonId"
  have status_of: "fst (deleteLesson e lessonId v) =
             (if n = 0 then Inr \<lparr>status = 408, json = error_body ''Lesson not found.''\<rparr>
              else Inr \<lparr>status = 200, json = message_body ''Lesson deleted successfully''\<rparr>)"
    if "isValid e (VStr lessonId)" "fst (deleteOne ?i v) = Inr n" for v n
    using that by (cases "deleteOne ?i v") (simp add: deleteLesson_def)
  have world_of: "lessons (snd (deleteLesson e lessonId v)) = lessons (snd (deleteOne ?i v))"
      "faults (snd (deleteLesson e lessonId v)) = faults (snd (deleteOne ?i v))"
    if "isValid e (VStr lessonId)" for v
    using that by (cases "deleteOne ?i v"; cases "fst (deleteOne ?i v)"; simp add: deleteLesson_def say_def)+
  have absent: "fst (deleteLesson e lessonId v) =
             Inr \<lparr>status = 408, json = error_body ''Lesson not found.''\<rparr>"
    if "isValid e (VStr lessonId)" "next_ok v" "\<not> list_ex (has_id ?i) (lessons v)" for v
    using that status_of [of v 0] by (simp add: deleteOne_ok delete_first_none)
  have present: "fst (deleteLesson e lessonId w) =
             Inr \<lparr>status = 200, json = message_body ''Lesson deleted successfully''\<rparr>
           \<and> Suc (length (lessons (snd (deleteLesson e lessonId w)))) = length (lessons w)"
    if v: "isValid e (VStr lessonId)" and ok: "next_ok w" and ex: "list_ex (has_id ?i) (lessons w)"
  proof -
    from delete_first_some [OF ex] obtain d where d: "d \<in> set (lessons w)"
      "delete_first (has_id ?i) (lessons w) = (1, remove1 d (lessons w))" by auto
    from d(1) have "Suc (length (remove1 d (lessons w))) = length (lessons w)"
      by (simp add: length_remove1) (cases "lessons w"; simp)
    with status_of [OF v, of w 1] world_of [OF v, of w] deleteOne_ok [OF ok, of ?i] d(2)
    show ?thesis by simp
  qed
  have again: "fst (deleteLesson e lessonId (snd (deleteLesson e lessonId w))) =
             Inr \<lparr>status = 408, json = error_body ''Lesson not found.''\<rparr>"
    if v: "isValid e (VStr lessonId)" and ok: "next_ok w"
      and ok2: "next_ok (snd (deleteLesson e lessonId w))"
      and dist: "distinct (map (\<lambda>d. map_of d ''_id'') (lessons w))"
  proof -
    have "\<not> list_ex (has_id ?i) (lessons (snd (deleteLesson e lessonId w)))"
    proof (cases "list_ex (has_id ?i) (lessons w)")
      case False
      with world_of [OF v, of w] deleteOne_ok [OF ok, of ?i] show ?thesis
        by (simp add: delete_first_none)
    next
      case True
      from delete_first_some [OF True] obtain d where d: "d \<in> set (lessons w)" "has_id ?i d"
        "delete_first (has_id ?i) (lessons w) = (1, remove1 d (lessons w))" by auto
      with world_of [OF v, of w] deleteOne_ok [OF ok, of ?i] removed_id_gone [OF dist d(1,2)]
      show ?thesis by simp
    qed
    with absent [OF v ok2] show ?thesis by simp
  qed
  have frame: "lessons (snd (deleteLesson e lessonId w)) = lessons w
        \<or> (\<exists>d\<in>set (lessons w). has_id ?i d
              \<and> lessons (snd (deleteLesson e lessonId w)) = remove1 d (lessons w))"
  proof (cases "isValid e (VStr lessonId)")
    case True
    with deleteOne_lessons [of ?i w] world_of [OF True, of w] show ?thesis by simp
  next
    case False
    then show ?thesis by (simp add: deleteLesson_def)
  qed
  show ?thesis
    using status_of absent present again frame by (simp add: deleteLesson_def)
qed

theorem deleteLesson_statuses_witness:
  "deleteLesson sample_env ''nope'' school =
     (Inr \<lparr>status = 408, json = error_body ''Invalid lesson ID.''\<rparr>, school)
   \<and> fst (deleteLesson sample_env ''64b000000000000000000001'' school) =
     Inr \<lparr>status = 200, json = message_body ''Lesson deleted successfully''\<rparr>
   \<and> Suc (length (lessons (snd (deleteLesson sample_env ''64b000000000000000000001'' school)))) = 2
   \<and> fst (deleteLesson sample_env ''64b000000000000000000001''
            (snd (deleteLesson sample_env ''64b000000000000000000001'' school))) =
     Inr \<lparr>status = 408, json = error_body ''Lesson not found.''\<rparr>
   \<and> fst (deleteLesson sample_env ''64b000000000000000000009'' school) =
     Inr \<lparr>status = 408, json = error_body ''Lesson not found.''\<rparr>"
proof -
  let ?i = "''64b000000000000000000001''" and ?j = "''64b000000000000000000009''"
  have ok: "next_ok school"
    by (simp add: school_def next_ok_def)
  have present: "list_ex (has_id (objectId sample_env ?i)) (lessons school)"
    by (simp add: sample_ids school_def has_id_def maths_def)
  have absent: "\<not> list_ex (has_id (objectId sample_env ?j)) (lessons school)"
    by (simp add: sample_ids sample_ids_differ [symmetric] school_def has_id_def maths_def
        music_def)
  have dist: "distinct (map (\<lambda>d. map_of d ''_id'') (lessons school))"
    by (simp add: school_def maths_def music_def sample_ids_differ [symmetric])
  have ok2: "next_ok (snd (deleteLesson sample_env ?i school))"
    using sample_ids(1)
    by (simp add: deleteLesson_def deleteOne_def driver_call_def school_def next_ok_def
        split: prod.split)
  have len: "length (lessons school) = 2"
    by (simp add: school_def)
  from deleteLesson_statuses [of sample_env "''nope''" school]
  have a: "deleteLesson sample_env ''nope'' school =
     (Inr \<lparr>status = 408, json = error_body ''Invalid lesson ID.''\<rparr>, school)"
    using sample_ids(3) by simp
  from deleteLesson_statuses [of sample_env ?i school]
  have b: "fst (deleteLesson sample_env ?i school) =
     Inr \<lparr>status = 200, json = message_body ''Lesson deleted successfully''\<rparr>"
    and c: "Suc (length (lessons (snd (deleteLesson sample_env ?i school)))) = 2"
    and d: "fst (deleteLesson sample_env ?i (snd (deleteLesson sample_env ?i school))) =
     Inr \<lparr>status = 408, json = error_body ''Lesson not found.''\<rparr>"
    using sample_ids(1) ok ok2 present dist len by simp_all
  from deleteLesson_statuses [of sample_env ?j school]
  have g: "fst (deleteLesson sample_env ?j school) =
     Inr \<lparr>status = 408, json = error_body ''Lesson not found.''\<rparr>"
    using sample_ids(2) ok absent by simp
  from a b c d g show ?thesis by simp
qed

section \<open>Store failures\<close>

text \<open>
  C7, as the code has it.  When the driver call of the lessons, order, update or delete
  handler is rejected with an error, the handler logs it and hands it to the error
  responder; the responder logs the stack and answers 500 with the message
  ``Something went wrong!'' and, in the field \<^verbatim>\<open>error\<close>, the message of the error
  itself (``Internal Server Error'' when that is empty).  The search handler does not
  hand its errors on: when either of its queries is rejected it logs the error and answers
  500 with a fixed body of its own.
\<close>

theorem store_failure_responses:
  "(fst (findAll w) = Inl err \<longrightarrow>
      respond (getLessons w) =
        errorResponder err (say (Console_error ''Error fetching lessons:'' err) (snd (findAll w))))
   \<and> (property ''lessonId'' orderData = VArr ids \<and> list_all (isValid e) ids
        \<and> fst (insertOne e [(''orderInfo'', property ''orderInfo'' orderData),
                            (''lessonId'', VArr ids)]
                  (say (Console_log ''Order received:'' orderData) w)) = Inl err \<longrightarrow>
      respond (postOrder e orderData w) =
        errorResponder err (say (Console_error ''Error saving order:'' err)
          (snd (insertOne e [(''orderInfo'', property ''orderInfo'' orderData),
                             (''lessonId'', VArr ids)]
                  (say (Console_log ''Order received:'' orderData) w)))))
   \<and> (isValid e (VStr lessonId) \<and> truthy updatedData \<and> 0 < keys_length updatedData
        \<and> fst (updateOne e (objectId e lessonId) updatedData w) = Inl err \<longrightarrow>
      respond (updateLesson e lessonId updatedData w) =
        errorResponder err (say (Console_error ''Error updating lesson:'' err)
          (snd (updateOne e (objectId e lessonId) updatedData w))))
   \<and> (isValid e (VStr lessonId) \<and> fst (deleteOne (objectId e lessonId) w) = Inl err \<longrightarrow>
      respond (deleteLesson e lessonId w) =
        errorResponder err (say (Console_error ''Error deleting lesson:'' err)
          (snd (deleteOne (objectId e lessonId) w))))
   \<and> errorResponder err w' =
        (\<lparr>status = 500,
          json = VObj [(''message'', VStr ''Something went wrong!''),
                       (''error'', VStr (if err_message err = [] then ''Internal Server Error''
                                         else err_message err))]\<rparr>,
         w'\<lparr>console := console w' @ [Console_error_stack (err_stack err)]\<rparr>)
   \<and> (q \<noteq> [] \<and> (fst (findText e q w) = Inl err
                   \<or> fst (findText e q w) = Inr []
                      \<and> fst (findRegex e q (snd (findText e q w))) = Inl err) \<longrightarrow>
      fst (respond (search e (Some q) w)) =
        \<lparr>status = 500, json = error_body ''An error occurred during the search.''\<rparr>
      \<and> last (console (snd (respond (search e (Some q) w)))) = Console_error_obj err)"
proof (intro conjI impI)
  assume "fst (findAll w) = Inl err"
  then show "respond (getLessons w) =
        errorResponder err (say (Console_error ''Error fetching lessons:'' err) (snd (findAll w)))"
    by (cases "findAll w") (simp add: getLessons_def respond_def)
next
  let ?d = "[(''orderInfo'', property ''orderInfo'' orderData), (''lessonId'', VArr ids)]"
  let ?w1 = "say (Console_log ''Order received:'' orderData) w"
  assume a: "property ''lessonId'' orderData = VArr ids \<and> list_all (isValid e) ids
        \<and> fst (insertOne e ?d ?w1) = Inl err"
  then have "orderData \<noteq> VUndefined \<and> orderData \<noteq> VNull"
    using property_array_object by blast
  with a show "respond (postOrder e orderData w) =
        errorResponder err (say (Console_error ''Error saving order:'' err) (snd (insertOne e ?d ?w1)))"
    by (cases "insertOne e ?d ?w1") (simp add: postOrder_def respond_def)
next
  assume "isValid e (VStr lessonId) \<and> truthy updatedData \<and> 0 < keys_length updatedData
        \<and> fst (updateOne e (objectId e lessonId) updatedData w) = Inl err"
  then show "respond (updateLesson e lessonId updatedData w) =
        errorResponder err (say (Console_error ''Error updating lesson:'' err)
          (snd (updateOne e (objectId e lessonId) updatedData w)))"
    by (cases "updateOne e (objectId e lessonId) updatedData w")
      (simp add: updateLesson_def respond_def)
next
  assume "isValid e (VStr lessonId) \<and> fst (deleteOne (objectId e lessonId) w) = Inl err"
  then show "respond (deleteLesson e lessonId w) =
        errorResponder err (say (Console_error ''Error deleting lesson:'' err)
          (snd (deleteOne (objectId e lessonId) w)))"
    by (cases "deleteOne (objectId e lessonId) w") (simp add: deleteLesson_def respond_def)
next
  show "errorResponder err w' =
        (\<lparr>status = 500,
          json = VObj [(''message'', VStr ''Something went wrong!''),
                       (''error'', VStr (if err_message err = [] then ''Internal Server Error''
                                         else err_message err))]\<rparr>,
         w'\<lparr>console := console w' @ [Console_error_stack (err_stack err)]\<rparr>)"
    by (simp add: errorResponder_def say_def)
next
  assume a: "q \<noteq> [] \<and> (fst (findText e q w) = Inl err
                   \<or> fst (findText e q w) = Inr []
                      \<and> fst (findRegex e q (snd (findText e q w))) = Inl err)"
  then show "fst (respond (search e (Some q) w)) =
        \<lparr>status = 500, json = error_body ''An error occurred during the search.''\<rparr>"
    by (cases "findText e q w"; cases "findRegex e q (snd (findText e q w))")
      (auto simp: search_def respond_def)
  from a show "last (console (snd (respond (search e (Some q) w)))) = Console_error_obj err"
    by (cases "findText e q w"; cases "findRegex e q (snd (findText e q w))")
      (auto simp: search_def respond_def say_def)
qed

theorem store_failure_responses_witness:
  "fst (respond (getLessons outage)) =
     \<lparr>status = 500,
      json = VObj [(''message'', VStr ''Something went wrong!''),
                   (''error'', VStr ''connect ECONNREFUSED 10.0.0.5:27017'')]\<rparr>
   \<and> fst (respond (deleteLesson sample_env ''64b000000000000000000001'' outage)) =
     \<lparr>status = 500,
      json = VObj [(''message'', VStr ''Something went wrong!''),
                   (''error'', VStr ''connect ECONNREFUSED 10.0.0.5:27017'')]\<rparr>
   \<and> fst (respond (updateLesson sample_env ''64b000000000000000000001''
                      (VObj [(''price'', VNum 5)]) outage)) =
     \<lparr>status = 500,
      json = VObj [(''message'', VStr ''Something went wrong!''),
                   (''error'', VStr ''connect ECONNREFUSED 10.0.0.5:27017'')]\<rparr>
   \<and> fst (respond (postOrder sample_env
                      (VObj [(''orderInfo'', VStr ''Ann''),
                             (''lessonId'', VArr [VStr ''64b000000000000000000001''])]) outage)) =
     \<lparr>status = 500,
      json = VObj [(''message'', VStr ''Something went wrong!''),
                   (''error'', VStr ''connect ECONNREFUSED 10.0.0.5:27017'')]\<rparr>
   \<and> fst (respond (search sample_env (Some ''math'') outage)) =
     \<lparr>status = 500, json = error_body ''An error occurred during the search.''\<rparr>"
proof -
  let ?err = "JsError ''connect ECONNREFUSED 10.0.0.5:27017''
      ''MongoNetworkError: connect ECONNREFUSED 10.0.0.5:27017''"
  let ?i = "''64b000000000000000000001''"
  let ?body = "VObj [(''price'', VNum 5)]"
  let ?order = "VObj [(''orderInfo'', VStr ''Ann''), (''lessonId'', VArr [VStr ?i])]"
  have f: "faults outage = [Some ?err]"
    by (simp add: outage_def)
  have fa: "fst (findAll outage) = Inl ?err"
    by (simp add: findAll_def driver_call_def f)
  have fd: "fst (deleteOne (objectId sample_env ?i) outage) = Inl ?err"
    by (simp add: deleteOne_def driver_call_def f)
  have fu: "fst (updateOne sample_env (objectId sample_env ?i) ?body outage) = Inl ?err"
    by (simp add: updateOne_def driver_call_def f)
  have fi: "fst (insertOne sample_env [(''orderInfo'', property ''orderInfo'' ?order),
                            (''lessonId'', VArr [VStr ?i])]
                  (say (Console_log ''Order received:'' ?order) outage)) = Inl ?err"
    by (simp add: insertOne_def driver_call_def f say_def)
  have ft: "fst (findText sample_env ''math'' outage) = Inl ?err"
    by (simp add: findText_def driver_call_def f)
  have ne: "truthy ?body" "0 < keys_length ?body"
    by (simp_all add: truthy_def keys_length_def)
  have p: "property ''lessonId'' ?order = VArr [VStr ?i]"
    by (simp add: property_def)
  note inst = store_failure_responses [of _ ?err ?order "[VStr ?i]" sample_env ?i ?body _ "''math''"]
  have a: "fst (respond (getLessons outage)) =
     \<lparr>status = 500,
      json = VObj [(''message'', VStr ''Something went wrong!''),
                   (''error'', VStr ''connect ECONNREFUSED 10.0.0.5:27017'')]\<rparr>"
    using inst [of outage "say (Console_error ''Error fetching lessons:'' ?err) (snd (findAll outage))"] fa
    by simp
  have b: "fst (respond (deleteLesson sample_env ?i outage)) =
     \<lparr>status = 500,
      json = VObj [(''message'', VStr ''Something went wrong!''),
                   (''error'', VStr ''connect ECONNREFUSED 10.0.0.5:27017'')]\<rparr>"
    using inst [of outage "say (Console_error ''Error deleting lesson:'' ?err)
          (snd (deleteOne (objectId sample_env ?i) outage))"] fd sample_ids(1)
    by simp
  have c: "fst (respond (updateLesson sample_env ?i ?body outage)) =
     \<lparr>status = 500,
      json = VObj [(''message'', VStr ''Something went wrong!''),
                   (''error'', VStr ''connect ECONNREFUSED 10.0.0.5:27017'')]\<rparr>"
    using inst [of outage "say (Console_error ''Error updating lesson:'' ?err)
          (snd (updateOne sample_env (objectId sample_env ?i) ?body outage))"] fu sample_ids(1) ne
    by simp
  have d: "fst (respond (postOrder sample_env ?order outage)) =
     \<lparr>status = 500,
      json = VObj [(''message'', VStr ''Something went wrong!''),
                   (''error'', VStr ''connect ECONNREFUSED 10.0.0.5:27017'')]\<rparr>"
    using inst [of outage "say (Console_error ''Error saving order:'' ?err)
          (snd (insertOne sample_env [(''orderInfo'', property ''orderInfo'' ?order),
                             (''lessonId'', VArr [VStr ?i])]
                  (say (Console_log ''Order received:'' ?order) outage)))"] fi sample_ids(1) p
    by simp
  have g: "fst (respond (search sample_env (Some ''math'') outage)) =
     \<lparr>status = 500, json = error_body ''An error occurred during the search.''\<rparr>"
    using inst [of outage outage] ft by simp
  from a b c d g show ?thesis by simp
qed

text \<open>
  The claim as stated fails twice while the database cannot be reached.  The search
  handler's answer is not the responder's: it carries no ``Something went wrong!''.
  And the responder's answer to \<^verbatim>\<open>GET /lessons\<close> carries the message of the driver's
  error, with the address of the database host in it.
\<close>

theorem store_failure_counterexample:
  "fst (respond (search sample_env (Some ''math'') outage)) =
     \<lparr>status = 500, json = VObj [(''error'', VStr ''An error occurred during the search.'')]\<rparr>
   \<and> fst (respond (getLessons outage)) =
     \<lparr>status = 500,
      json = VObj [(''message'', VStr ''Something went wrong!''),
                   (''error'', VStr ''connect ECONNREFUSED 10.0.0.5:27017'')]\<rparr>"
  by (simp add: respond_def search_def findText_def getLessons_def findAll_def driver_call_def
      outage_def school_def errorResponder_def error_body_def)

section \<open>Health\<close>

text \<open>
  The health response is 200 with the fields \<^verbatim>\<open>status\<close>, \<^verbatim>\<open>message\<close> and
  \<^verbatim>\<open>timestamp\<close>, the last being the clock reading taken for the request.  How the
  readings of successive requests compare is a property of the system clock, not of the
  handler.
\<close>

lemma health_response:
  "health now =
     \<lparr>status = 200,
      json = VObj [(''status'', VStr ''success''),
                   (''message'', VStr ''Server is healthy and running!''),
                   (''timestamp'', VDate now)]\<rparr>"
  by (simp add: health_def)

end
